theory Spec2Isabelle
  imports Complex_Main
begin

section \<open>Python values used by the two scripts\<close>

text \<open>
  The scripts \<^verbatim>\<open>scripts/generate-report.py\<close> and \<^verbatim>\<open>scripts/generate-plots.py\<close> are
  modelled function by function. Exceptions are values of \<open>exn\<close>; a computation that may
  raise returns \<open>exn + 'a\<close> with \<open>Inl\<close> for the exception.

  A Python \<open>float\<close> is modelled by \<open>pyfloat\<close>: the three special values of IEEE binary64
  and, for a finite value, the real number it denotes. Rounding to 53 bits is not modelled:
  arithmetic on finite values is real arithmetic. The finite range of binary64 is modelled
  where leaving it raises: the division of two integers raises \<open>OverflowError\<close> when the
  quotient is too large for a float.
\<close>

datatype exn =
    ValueError
  | ZeroDivisionError
  | OverflowError
  | FileNotFoundError
  | FileExistsError
  | NotADirectoryError
  | IsADirectoryError
  | LibraryError string

datatype pyfloat = Fin real | PInf | NInf | NaN

text \<open>A cell of a pandas row: a \<open>str\<close>, a float or an integer.\<close>

datatype pyval = PStr string | PFloat pyfloat | PInt int

text \<open>The comparisons \<open>a > b\<close> and \<open>a <= b\<close> of two floats; both are false when an
  operand is NaN.\<close>

fun float_gt :: "pyfloat \<Rightarrow> pyfloat \<Rightarrow> bool" where
  "float_gt NaN _ = False"
| "float_gt _ NaN = False"
| "float_gt (Fin a) (Fin b) = (a > b)"
| "float_gt PInf PInf = False"
| "float_gt PInf _ = True"
| "float_gt NInf _ = False"
| "float_gt (Fin a) NInf = True"
| "float_gt (Fin a) PInf = False"

fun float_le :: "pyfloat \<Rightarrow> pyfloat \<Rightarrow> bool" where
  "float_le NaN _ = False"
| "float_le _ NaN = False"
| "float_le (Fin a) (Fin b) = (a \<le> b)"
| "float_le NInf _ = True"
| "float_le PInf PInf = True"
| "float_le PInf _ = False"
| "float_le (Fin a) NInf = False"
| "float_le (Fin a) PInf = True"

fun float_neg :: "pyfloat \<Rightarrow> pyfloat" where
  "float_neg (Fin a) = Fin (- a)"
| "float_neg PInf = NInf"
| "float_neg NInf = PInf"
| "float_neg NaN = NaN"

subsection \<open>The builtins \<open>int\<close> and \<open>float\<close> on strings\<close>

text \<open>
  Both builtins strip whitespace, read an optional sign and then digits in which single
  underscores may separate digits. Strings are byte strings here, so only the ASCII
  whitespace and the ASCII digits occur.
\<close>

definition is_space :: "char \<Rightarrow> bool" where
  "is_space c = (of_char c \<in> set [9, 10, 11, 12, 13, 28, 29, 30, 31, 32 :: nat])"

definition is_digit :: "char \<Rightarrow> bool" where
  "is_digit c = (48 \<le> (of_char c :: nat) \<and> (of_char c :: nat) \<le> 57)"

definition digit_val :: "char \<Rightarrow> nat" where
  "digit_val c = of_char c - 48"

definition lower :: "char \<Rightarrow> char" where
  "lower c = (if 65 \<le> (of_char c :: nat) \<and> (of_char c :: nat) \<le> 90
              then char_of ((of_char c :: nat) + 32) else c)"

definition strip :: "string \<Rightarrow> string" where
  "strip s = rev (dropWhile is_space (rev (dropWhile is_space s)))"

definition take_sign :: "string \<Rightarrow> bool \<times> string" where
  "take_sign s =
     (case s of
        [] \<Rightarrow> (False, [])
      | c # cs \<Rightarrow>
          if c = CHR ''-'' then (True, cs)
          else if c = CHR ''+'' then (False, cs)
          else (False, s))"

text \<open>\<open>more_digits\<close> reads \<open>(["_"] digit)*\<close> and returns the digits with the rest of the
  input; \<open>digitpart\<close> reads \<open>digit (["_"] digit)*\<close>.\<close>

fun more_digits :: "string \<Rightarrow> nat list \<times> string" where
  "more_digits [] = ([], [])"
| "more_digits [c] = (if is_digit c then ([digit_val c], []) else ([], [c]))"
| "more_digits (c # d # cs) =
     (if is_digit c then
        (case more_digits (d # cs) of (ds, r) \<Rightarrow> (digit_val c # ds, r))
      else if c = CHR ''_'' \<and> is_digit d then
        (case more_digits cs of (ds, r) \<Rightarrow> (digit_val d # ds, r))
      else ([], c # d # cs))"

definition digitpart :: "string \<Rightarrow> (nat list \<times> string) option" where
  "digitpart s =
     (case s of
        [] \<Rightarrow> None
      | c # cs \<Rightarrow>
          if is_digit c then
            (case more_digits cs of (ds, r) \<Rightarrow> Some (digit_val c # ds, r))
          else None)"

definition nat_of_digits :: "nat list \<Rightarrow> nat" where
  "nat_of_digits ds = foldl (\<lambda>a d. 10 * a + d) 0 ds"

text \<open>\<open>int(s)\<close> for a string \<open>s\<close>, base ten.\<close>

definition py_int :: "string \<Rightarrow> exn + int" where
  "py_int s =
     (case take_sign (strip s) of
        (neg, r) \<Rightarrow>
          (case digitpart r of
             Some (ds, []) \<Rightarrow>
               Inr (if neg then - int (nat_of_digits ds) else int (nat_of_digits ds))
           | _ \<Rightarrow> Inl ValueError))"

text \<open>The exponent part of a float literal, which must use up the input:
  nothing, or \<open>("e" | "E") [sign] digitpart\<close>.\<close>

definition exponent :: "string \<Rightarrow> int option" where
  "exponent s =
     (case s of
        [] \<Rightarrow> Some 0
      | c # cs \<Rightarrow>
          if c = CHR ''e'' \<or> c = CHR ''E'' then
            (case take_sign cs of
               (neg, r) \<Rightarrow>
                 (case digitpart r of
                    Some (ds, []) \<Rightarrow>
                      Some (if neg then - int (nat_of_digits ds) else int (nat_of_digits ds))
                  | _ \<Rightarrow> None))
          else None)"

definition mk_float :: "nat list \<Rightarrow> nat list \<Rightarrow> string \<Rightarrow> real option" where
  "mk_float ip fp rest =
     (case exponent rest of
        None \<Rightarrow> None
      | Some e \<Rightarrow> Some (real (nat_of_digits (ip @ fp)) * 10 powi (e - int (length fp))))"

text \<open>\<open>[digitpart] "." digitpart | digitpart ["."]\<close>, then the exponent.\<close>

definition floatnumber :: "string \<Rightarrow> real option" where
  "floatnumber s =
     (case digitpart s of
        Some (ip, r) \<Rightarrow>
          (case r of
             [] \<Rightarrow> mk_float ip [] []
           | c # r' \<Rightarrow>
               if c = CHR ''.'' then
                 (case digitpart r' of
                    Some (fp, r'') \<Rightarrow> mk_float ip fp r''
                  | None \<Rightarrow> mk_float ip [] r')
               else mk_float ip [] r)
      | None \<Rightarrow>
          (case s of
             [] \<Rightarrow> None
           | c # r' \<Rightarrow>
               if c = CHR ''.'' then
                 (case digitpart r' of
                    Some (fp, r'') \<Rightarrow> mk_float [] fp r''
                  | None \<Rightarrow> None)
               else None))"

definition absfloatvalue :: "string \<Rightarrow> pyfloat option" where
  "absfloatvalue s =
     (if map lower s = ''inf'' \<or> map lower s = ''infinity'' then Some PInf
      else if map lower s = ''nan'' then Some NaN
      else map_option Fin (floatnumber s))"

definition float_of_str :: "string \<Rightarrow> exn + pyfloat" where
  "float_of_str s =
     (case take_sign (strip s) of
        (neg, r) \<Rightarrow>
          (case absfloatvalue r of
             None \<Rightarrow> Inl ValueError
           | Some v \<Rightarrow> Inr (if neg then float_neg v else v)))"

text \<open>\<open>float(x)\<close> for a cell \<open>x\<close>.\<close>

fun py_float :: "pyval \<Rightarrow> exn + pyfloat" where
  "py_float (PStr s) = float_of_str s"
| "py_float (PFloat f) = Inr f"
| "py_float (PInt n) = Inr (Fin (of_int n))"

text \<open>
  \<open>a / b\<close> for two integers. The quotient is rounded to the nearest float, and the division
  raises \<open>OverflowError\<close> when that would be \<open>2 ^ 1024\<close> or more in magnitude: from
  \<open>2 ^ 1024 - 2 ^ 970\<close> on, the midpoint between the largest float and \<open>2 ^ 1024\<close>.
\<close>

definition float_overflow :: real where
  "float_overflow = 2 ^ 1024 - 2 ^ 970"

definition py_truediv :: "int \<Rightarrow> int \<Rightarrow> exn + real" where
  "py_truediv a b =
     (if b = 0 then Inl ZeroDivisionError
      else if float_overflow \<le> \<bar>of_int a / of_int b\<bar> then Inl OverflowError
      else Inr (of_int a / of_int b))"

section \<open>The summary table\<close>

text \<open>One row of \<^verbatim>\<open>summary.csv\<close> as \<open>pd.read_csv\<close> delivers it. \<open>Status\<close> is the string
  of the file; \<open>FinalResidual\<close> is a number or a string. A table has the four columns,
  so the tests \<open>'Runtime' in successful_df.columns\<close> and
  \<open>'FinalResidual' in successful_df.columns\<close> of the script hold.\<close>

record row =
  Reynolds :: int
  Status :: string
  Runtime :: real
  FinalResidual :: pyval

text \<open>\<open>df[df['Status'] == s]\<close>\<close>

definition with_status :: "string \<Rightarrow> row list \<Rightarrow> row list" where
  "with_status s df = filter (\<lambda>r. Status r = s) df"

subsection \<open>Headline metrics of \<open>generate_html_report\<close>\<close>

definition total_cases :: "row list \<Rightarrow> int" where
  "total_cases df = int (length df)"

definition successful_cases :: "row list \<Rightarrow> int" where
  "successful_cases df = int (length (with_status ''SUCCESS'' df))"

definition success_rate :: "row list \<Rightarrow> exn + real" where
  "success_rate df =
     (if total_cases df > 0 then
        (case py_truediv (successful_cases df) (total_cases df) of
           Inl e \<Rightarrow> Inl e
         | Inr q \<Rightarrow> Inr (q * 100))
      else Inr 0)"

text \<open>\<open>Series.mean()\<close>: NaN on an empty series.\<close>

definition series_mean :: "real list \<Rightarrow> pyfloat" where
  "series_mean xs = (if xs = [] then NaN else Fin (sum_list xs / real (length xs)))"

definition avg_runtime :: "row list \<Rightarrow> pyfloat" where
  "avg_runtime df =
     (let successful_df = with_status ''SUCCESS'' df
      in if successful_df \<noteq> [] then series_mean (map Runtime successful_df) else Fin 0)"

subsection \<open>Convergence quality of a row\<close>

text \<open>\<open>row['FinalResidual'] != 'N/A'\<close>: a number is never equal to a string.\<close>

definition differs_from_str :: "pyval \<Rightarrow> string \<Rightarrow> bool" where
  "differs_from_str v s = (case v of PStr t \<Rightarrow> t \<noteq> s | _ \<Rightarrow> True)"

definition convergence_quality :: "pyval \<Rightarrow> string" where
  "convergence_quality fr =
     (if differs_from_str fr ''N/A'' then
        (case py_float fr of
           Inl e \<Rightarrow> ''Unknown''
         | Inr residual_val \<Rightarrow>
             if float_gt residual_val (Fin 0.001) then ''Poor''
             else if float_gt residual_val (Fin 0.0001) then ''Good''
             else ''Excellent'')
      else ''Excellent'')"

section \<open>Files, output and the libraries\<close>

text \<open>
  The file system maps a path to a directory or to a regular file with its content; the
  lines printed to standard output are collected in order. Paths are the strings the
  scripts build; \<open>Path(d) / name\<close> is modelled without pathlib's normalisation.
\<close>

datatype node = Dir | File string

record world =
  fs :: "string \<rightharpoonup> node"
  stdout :: "string list"

definition print :: "string \<Rightarrow> world \<Rightarrow> world" where
  "print s w = w\<lparr>stdout := stdout w @ [s]\<rparr>"

definition path_join :: "string \<Rightarrow> string \<Rightarrow> string" where
  "path_join d name = d @ ''/'' @ name"

definition path_exists :: "world \<Rightarrow> string \<Rightarrow> bool" where
  "path_exists w p = (fs w p \<noteq> None)"

text \<open>Reading a file that the caller opens by path.\<close>

definition read_file :: "world \<Rightarrow> string \<Rightarrow> exn + string" where
  "read_file w p =
     (case fs w p of
        None \<Rightarrow> Inl FileNotFoundError
      | Some Dir \<Rightarrow> Inl IsADirectoryError
      | Some (File c) \<Rightarrow> Inr c)"

text \<open>Creating or overwriting the file \<open>name\<close> in the directory \<open>d\<close>.\<close>

definition write_file :: "string \<Rightarrow> string \<Rightarrow> string \<Rightarrow> world \<Rightarrow> exn + world" where
  "write_file d name c w =
     (case fs w d of
        None \<Rightarrow> Inl FileNotFoundError
      | Some (File _) \<Rightarrow> Inl NotADirectoryError
      | Some Dir \<Rightarrow>
          (case fs w (path_join d name) of
             Some Dir \<Rightarrow> Inl IsADirectoryError
           | _ \<Rightarrow> Inr (w\<lparr>fs := (fs w)(path_join d name \<mapsto> File c)\<rparr>)))"

text \<open>\<open>(Path(d) / name).mkdir(exist_ok=True)\<close>\<close>

definition mkdir_exist_ok :: "string \<Rightarrow> string \<Rightarrow> world \<Rightarrow> exn + world" where
  "mkdir_exist_ok d name w =
     (case fs w (path_join d name) of
        Some Dir \<Rightarrow> Inr w
      | Some (File _) \<Rightarrow> Inl FileExistsError
      | None \<Rightarrow>
          (case fs w d of
             None \<Rightarrow> Inl FileNotFoundError
           | Some (File _) \<Rightarrow> Inl NotADirectoryError
           | Some Dir \<Rightarrow> Inr (w\<lparr>fs := (fs w)(path_join d name \<mapsto> Dir)\<rparr>)))"

text \<open>How a process ends: \<open>sys.exit(n)\<close> (or the end of the script, \<open>n = 0\<close>), or an
  exception that nothing catches, on which the interpreter prints a traceback and exits
  with status 1.\<close>

datatype outcome = Exit int | Uncaught exn

fun exit_status :: "outcome \<Rightarrow> int" where
  "exit_status (Exit n) = n"
| "exit_status (Uncaught e) = 1"

text \<open>\<open>str(n)\<close> for an integer.\<close>

fun str_nat :: "nat \<Rightarrow> string" where
  "str_nat n =
     (if n < 10 then [char_of (48 + n)]
      else str_nat (n div 10) @ [char_of (48 + n mod 10)])"

declare str_nat.simps [simp del]

definition str_int :: "int \<Rightarrow> string" where
  "str_int i = (if i < 0 then ''-'' @ str_nat (nat (- i)) else str_nat (nat i))"

text \<open>
  What the scripts draw. A figure records the data handed to matplotlib:
  the residual chart (Reynolds number of the title and the columns Time, Ux, Uy, p),
  the velocity chart (Reynolds number, grid, U profile, V profile), and the four panels
  of the summary chart (status counts, runtime series, residual series, case counts).
\<close>

datatype figure =
    ResidualsFig int "real list" "real list" "real list" "real list"
  | VelocityFig int "real list" "real list" "real list"
  | SummaryFig "string \<rightharpoonup> nat" "(int list \<times> real list) option"
      "(int list \<times> pyfloat list) option" "(string \<times> int) list"

text \<open>
  The calls into pandas, matplotlib and the string formatting of floats are parameters:
  \<^item> \<open>read_summary\<close>: \<open>pd.read_csv(summary_file)\<close>, the rows of the table;
  \<^item> \<open>read_residuals\<close>: \<open>pd.read_csv(f, sep='\s+', header=None, skiprows=1)\<close>, the
    columns of the table;
  \<^item> \<open>to_numeric_str\<close>: what \<open>pd.to_numeric(..., errors='coerce')\<close> makes of a string
    cell, the number it reads or NaN when pandas does not read the string as a number;
  \<^item> \<open>render\<close>: drawing a figure and encoding it as PNG;
  \<^item> \<open>fmt_1f\<close>: the format \<open>:.1f\<close>; \<open>str_float\<close>: \<open>str\<close> of a float;
    \<open>str_exn\<close>: \<open>str\<close> of an exception.
  Each of the first three may raise.
\<close>

record lib =
  read_summary :: "string \<Rightarrow> exn + row list"
  read_residuals :: "string \<Rightarrow> exn + real list list"
  to_numeric_str :: "string \<Rightarrow> pyfloat"
  render :: "figure \<Rightarrow> exn + string"
  fmt_1f :: "pyfloat \<Rightarrow> string"
  str_float :: "pyfloat \<Rightarrow> string"
  str_exn :: "exn \<Rightarrow> string"

definition bind_exn :: "exn + 'a \<Rightarrow> ('a \<Rightarrow> exn + 'b) \<Rightarrow> exn + 'b" where
  "bind_exn m f = (case m of Inl e \<Rightarrow> Inl e | Inr x \<Rightarrow> f x)"

text \<open>\<open>plt.savefig(Path(d) / name)\<close>\<close>

definition savefig :: "lib \<Rightarrow> figure \<Rightarrow> string \<Rightarrow> string \<Rightarrow> world \<Rightarrow> exn + world" where
  "savefig L fig d name w = bind_exn (render L fig) (\<lambda>png. write_file d name png w)"

section \<open>\<^verbatim>\<open>generate-plots.py\<close>\<close>

subsection \<open>\<open>plot_residuals\<close>\<close>

text \<open>\<open>data.columns = ['Time', 'Ux', 'Uy', 'p']\<close> raises unless the table has four
  columns.\<close>

definition set_columns :: "real list list \<Rightarrow> exn + (real list \<times> real list \<times> real list \<times> real list)" where
  "set_columns cols =
     (case cols of
        [t, ux, uy, p] \<Rightarrow> Inr (t, ux, uy, p)
      | _ \<Rightarrow> Inl ValueError)"

definition residuals_path :: "string \<Rightarrow> string" where
  "residuals_path case_dir = path_join case_dir ''postProcessing/residuals/0/residuals.dat''"

definition residuals_png :: "int \<Rightarrow> string" where
  "residuals_png reynolds_num = ''residuals_Re'' @ str_int reynolds_num @ ''.png''"

text \<open>The body of the \<open>try\<close> block.\<close>

definition plot_residuals_try :: "lib \<Rightarrow> string \<Rightarrow> int \<Rightarrow> string \<Rightarrow> world \<Rightarrow> exn + world" where
  "plot_residuals_try L case_dir reynolds_num output_dir w =
     bind_exn (read_file w (residuals_path case_dir)) (\<lambda>content.
     bind_exn (read_residuals L content) (\<lambda>data.
     bind_exn (set_columns data) (\<lambda>(t, ux, uy, p).
     bind_exn (savefig L (ResidualsFig reynolds_num t ux uy p) output_dir
                 (residuals_png reynolds_num) w) (\<lambda>w'.
     Inr (print (''Generated residuals plot: ''
                  @ path_join output_dir (residuals_png reynolds_num)) w')))))"

definition plot_residuals :: "lib \<Rightarrow> string \<Rightarrow> int \<Rightarrow> string \<Rightarrow> world \<Rightarrow> bool \<times> world" where
  "plot_residuals L case_dir reynolds_num output_dir w =
     (if \<not> path_exists w (residuals_path case_dir) then
        (False, print (''Warning: Residuals file not found: '' @ residuals_path case_dir) w)
      else
        (case plot_residuals_try L case_dir reynolds_num output_dir w of
           Inr w' \<Rightarrow> (True, w')
         | Inl e \<Rightarrow> (False, print (''Error plotting residuals: '' @ str_exn L e) w)))"

subsection \<open>\<open>plot_velocity_profile\<close>\<close>

text \<open>\<open>np.linspace(a, b, n)\<close>\<close>

definition linspace :: "real \<Rightarrow> real \<Rightarrow> nat \<Rightarrow> real list" where
  "linspace a b n = map (\<lambda>i. a + real i * ((b - a) / real (n - 1))) [0..<n]"

definition y_grid :: "real list" where
  "y_grid = linspace 0 1 50"

definition u_profile :: "int \<Rightarrow> exn + real list" where
  "u_profile reynolds_num =
     (if reynolds_num \<le> 100 then Inr (map (\<lambda>y. sin (pi * y) * 0.8) y_grid)
      else bind_exn (py_truediv (- reynolds_num) 1000) (\<lambda>q.
             Inr (map (\<lambda>y. sin (pi * y) * (1.0 - exp q)) y_grid)))"

definition v_profile :: "real list" where
  "v_profile = map (\<lambda>y. 0) y_grid"

definition velocity_png :: "int \<Rightarrow> string" where
  "velocity_png reynolds_num = ''velocity_profile_Re'' @ str_int reynolds_num @ ''.png''"

definition plot_velocity_try :: "lib \<Rightarrow> string \<Rightarrow> int \<Rightarrow> string \<Rightarrow> world \<Rightarrow> exn + world" where
  "plot_velocity_try L case_dir reynolds_num output_dir w =
     bind_exn (u_profile reynolds_num) (\<lambda>u.
     bind_exn (savefig L (VelocityFig reynolds_num y_grid u v_profile) output_dir
                 (velocity_png reynolds_num) w) (\<lambda>w'.
     Inr (print (''Generated velocity profile plot: ''
                  @ path_join output_dir (velocity_png reynolds_num)) w')))"

definition plot_velocity_profile :: "lib \<Rightarrow> string \<Rightarrow> int \<Rightarrow> string \<Rightarrow> world \<Rightarrow> bool \<times> world" where
  "plot_velocity_profile L case_dir reynolds_num output_dir w =
     (case plot_velocity_try L case_dir reynolds_num output_dir w of
        Inr w' \<Rightarrow> (True, w')
      | Inl e \<Rightarrow> (False, print (''Error plotting velocity profile: '' @ str_exn L e) w))"

subsection \<open>\<open>main\<close>\<close>

definition plots_usage :: string where
  "plots_usage = ''Usage: python3 generate-plots.py <case_directory> <reynolds_number>''"

definition generating_msg :: "string \<Rightarrow> int \<Rightarrow> string" where
  "generating_msg case_dir reynolds_num =
     ''Generating plots for case: '' @ case_dir @ '', Re = '' @ str_int reynolds_num"

definition main_plots :: "lib \<Rightarrow> string list \<Rightarrow> world \<Rightarrow> outcome \<times> world" where
  "main_plots L argv w =
     (if length argv \<noteq> 3 then (Exit 1, print plots_usage w)
      else
        let case_dir = argv ! 1 in
        (case py_int (argv ! 2) of
           Inl e \<Rightarrow> (Uncaught e, w)
         | Inr reynolds_num \<Rightarrow>
             let output_dir = path_join case_dir ''plots'' in
             (case mkdir_exist_ok case_dir ''plots'' w of
                Inl e \<Rightarrow> (Uncaught e, w)
              | Inr w1 \<Rightarrow>
                  let w2 = print (generating_msg case_dir reynolds_num) w1;
                      (success_residuals, w3) =
                         plot_residuals L case_dir reynolds_num output_dir w2;
                      (success_velocity, w4) =
                         plot_velocity_profile L case_dir reynolds_num output_dir w3
                  in if success_residuals \<and> success_velocity then
                       (Exit 0, print (''Successfully generated all plots for Re = ''
                                        @ str_int reynolds_num) w4)
                     else
                       (Exit 1, print (''Some plots failed for Re = ''
                                        @ str_int reynolds_num) w4))))"

section \<open>\<^verbatim>\<open>generate-report.py\<close>\<close>

subsection \<open>\<open>generate_summary_plots\<close>\<close>

text \<open>\<open>df['Status'].value_counts()\<close>: the number of rows of each status that occurs.\<close>

definition value_counts :: "string list \<Rightarrow> string \<rightharpoonup> nat" where
  "value_counts xs = (\<lambda>s. if s \<in> set xs then Some (count_list xs s) else None)"

definition runtime_panel :: "row list \<Rightarrow> (int list \<times> real list) option" where
  "runtime_panel df =
     (let successful_df = with_status ''SUCCESS'' df
      in if successful_df \<noteq> [] then Some (map Reynolds successful_df, map Runtime successful_df)
         else None)"

text \<open>\<open>pd.to_numeric(..., errors='coerce')\<close> on one cell, and \<open>notna\<close>. A number stays
  as it is, a NaN with it; the conversion of a string is pandas' own.\<close>

definition to_numeric_coerce :: "lib \<Rightarrow> pyval \<Rightarrow> pyfloat" where
  "to_numeric_coerce L v =
     (case v of
        PStr s \<Rightarrow> to_numeric_str L s
      | PFloat f \<Rightarrow> f
      | PInt n \<Rightarrow> Fin (of_int n))"

definition notna :: "pyfloat \<Rightarrow> bool" where
  "notna f = (f \<noteq> NaN)"

definition residual_panel :: "lib \<Rightarrow> row list \<Rightarrow> (int list \<times> pyfloat list) option" where
  "residual_panel L df =
     (let successful_df = with_status ''SUCCESS'' df
      in if successful_df \<noteq> [] then
           let residuals = map (\<lambda>r. to_numeric_coerce L (FinalResidual r)) successful_df;
               valid_data = map fst (filter (\<lambda>(r, x). notna x) (zip successful_df residuals))
           in if valid_data \<noteq> [] then Some (map Reynolds valid_data, filter notna residuals)
              else None
         else None)"

definition performance_data :: "row list \<Rightarrow> (string \<times> int) list" where
  "performance_data df =
     [(''Total Cases'', int (length df)),
      (''Successful'', int (length (with_status ''SUCCESS'' df))),
      (''Failed'', int (length (with_status ''FAILED'' df))),
      (''Poor Convergence'', int (length (with_status ''CONVERGED_POOR'' df)))]"

definition summary_figure :: "lib \<Rightarrow> row list \<Rightarrow> figure" where
  "summary_figure L df =
     SummaryFig (value_counts (map Status df)) (runtime_panel df) (residual_panel L df)
       (performance_data df)"

definition summary_path :: "string \<Rightarrow> string" where
  "summary_path results_dir = path_join results_dir ''summary.csv''"

text \<open>The functions of this script return a path or nothing, and may raise: the result
  is the exception or the returned value, with the world as it is then.\<close>

definition generate_summary_plots :: "lib \<Rightarrow> string \<Rightarrow> world \<Rightarrow> (exn + string option) \<times> world" where
  "generate_summary_plots L results_dir w =
     (if \<not> path_exists w (summary_path results_dir) then
        (Inr None, print (''Warning: Summary file not found: '' @ summary_path results_dir) w)
      else
        (case bind_exn (read_file w (summary_path results_dir)) (read_summary L) of
           Inl e \<Rightarrow> (Inl e, w)
         | Inr df \<Rightarrow>
             let w1 = print (''Processing '' @ str_int (int (length df))
                              @ '' simulation results'') w
             in (case savefig L (summary_figure L df) results_dir
                        ''parametric_study_summary.png'' w1 of
                   Inl e \<Rightarrow> (Inl e, w1)
                 | Inr w2 \<Rightarrow>
                     (Inr (Some (path_join results_dir ''parametric_study_summary.png'')),
                      print (''Generated summary plot: ''
                              @ path_join results_dir ''parametric_study_summary.png'') w2))))"

subsection \<open>\<open>generate_html_report\<close>\<close>

text \<open>The literal text of the report, as UTF-8 bytes, cut at the places where values are
  inserted.\<close>

definition html_head_1 :: string where
  \<open>html_head_1 =
     ''\<newline>'' @
     ''<!DOCTYPE html>\<newline>'' @
     ''<html>\<newline>'' @
     ''<head>\<newline>'' @
     ''    <title>OpenFOAM Parametric Study Report</title>\<newline>'' @
     ''    <style>\<newline>'' @
     ''        body { font-family: Arial, sans-serif; margin: 40px; }\<newline>'' @
     ''        .header { background-color: #f0f0f0; padding: 20px; border-radius: 5px; }\<newline>'' @
     ''        .metrics { display: flex; justify-content: space-around; margin: 20px 0; }\<newline>'' @
     ''        .metric { text-align: center; padding: 15px; background-color: #e8f4f8; border-radius: 5px; }\<newline>'' @
     ''        .metric h3 { margin: 0; color: #2c5f7f; }\<newline>'' @
     ''        .metric p { font-size: 24px; font-weight: bold; margin: 5px 0; color: #1a4a60; }\<newline>'' @
     ''        table { width: 100%; border-collapse: collapse; margin: 20px 0; }\<newline>'' @
     ''        th, td { padding: 12px; text-align: left; border-bottom: 1px solid #ddd; }\<newline>'' @
     ''        th { background-color: #4CAF50; color: white; }\<newline>'' @
     ''        tr:nth-child(even) { background-color: #f2f2f2; }\<newline>'' @
     ''        .success { color: green; font-weight: bold; }\<newline>'' @
     ''        .failed { color: red; font-weight: bold; }\<newline>'' @
     ''        .warning { color: orange; font-weight: bold; }\<newline>'' @
     ''        .timestamp { color: #666; font-style: italic; }\<newline>'' @
     ''    </style>\<newline>'' @
     ''</head>\<newline>'' @
     ''<body>\<newline>'' @
     ''    <div class="header">\<newline>'' @
     ''        <h1>'' @
     [CHR 0xF0, CHR 0x9F, CHR 0x8C, CHR 0x8A] @
     '' OpenFOAM Parametric Study Report</h1>\<newline>'' @
     ''        <p class="timestamp">Generated on: ''\<close>

definition html_head_2 :: string where
  \<open>html_head_2 =
     ''</p>\<newline>'' @
     ''        <p><strong>Study:</strong> Cavity Flow - Reynolds Number Parametric Analysis</p>\<newline>'' @
     ''    </div>\<newline>'' @
     ''    \<newline>'' @
     ''    <div class="metrics">\<newline>'' @
     ''        <div class="metric">\<newline>'' @
     ''            <h3>Total Cases</h3>\<newline>'' @
     ''            <p>''\<close>

definition html_head_3 :: string where
  \<open>html_head_3 =
     ''</p>\<newline>'' @
     ''        </div>\<newline>'' @
     ''        <div class="metric">\<newline>'' @
     ''            <h3>Success Rate</h3>\<newline>'' @
     ''            <p>''\<close>

definition html_head_4 :: string where
  \<open>html_head_4 =
     ''%</p>\<newline>'' @
     ''        </div>\<newline>'' @
     ''        <div class="metric">\<newline>'' @
     ''            <h3>Successful Cases</h3>\<newline>'' @
     ''            <p>''\<close>

definition html_head_5 :: string where
  \<open>html_head_5 =
     ''</p>\<newline>'' @
     ''        </div>\<newline>'' @
     ''        <div class="metric">\<newline>'' @
     ''            <h3>Avg Runtime</h3>\<newline>'' @
     ''            <p>''\<close>

definition html_head_6 :: string where
  \<open>html_head_6 =
     ''s</p>\<newline>'' @
     ''        </div>\<newline>'' @
     ''    </div>\<newline>'' @
     ''    \<newline>'' @
     ''    <h2>'' @
     [CHR 0xF0, CHR 0x9F, CHR 0x93, CHR 0x8A] @
     '' Results Summary</h2>\<newline>'' @
     ''    <img src="parametric_study_summary.png" alt="Parametric Study Summary" style="width: 100%; max-width: 1000px;">\<newline>'' @
     ''    \<newline>'' @
     ''    <h2>'' @
     [CHR 0xF0, CHR 0x9F, CHR 0x93, CHR 0x8B] @
     '' Detailed Results</h2>\<newline>'' @
     ''    <table>\<newline>'' @
     ''        <tr>\<newline>'' @
     ''            <th>Reynolds Number</th>\<newline>'' @
     ''            <th>Status</th>\<newline>'' @
     ''            <th>Runtime (s)</th>\<newline>'' @
     ''            <th>Final Residual</th>\<newline>'' @
     ''            <th>Convergence Quality</th>\<newline>'' @
     ''        </tr>\<newline>''\<close>

definition html_row_1 :: string where
  \<open>html_row_1 =
     ''\<newline>'' @
     ''        <tr>\<newline>'' @
     ''            <td>''\<close>

definition html_row_2 :: string where
  \<open>html_row_2 =
     ''</td>\<newline>'' @
     ''            <td><span class="''\<close>

definition html_row_3 :: string where
  \<open>html_row_3 =
     ''">''\<close>

definition html_row_4 :: string where
  \<open>html_row_4 =
     ''</span></td>\<newline>'' @
     ''            <td>''\<close>

definition html_row_5 :: string where
  \<open>html_row_5 =
     ''</td>\<newline>'' @
     ''            <td>''\<close>

definition html_row_6 :: string where
  \<open>html_row_6 =
     ''</td>\<newline>'' @
     ''            <td>''\<close>

definition html_row_7 :: string where
  \<open>html_row_7 =
     ''</td>\<newline>'' @
     ''        </tr>\<newline>''\<close>

definition html_tail :: string where
  \<open>html_tail =
     ''\<newline>'' @
     ''    </table>\<newline>'' @
     ''    \<newline>'' @
     ''    <h2>'' @
     [CHR 0xF0, CHR 0x9F, CHR 0x94, CHR 0xA7] @
     '' System Information</h2>\<newline>'' @
     ''    <ul>\<newline>'' @
     ''        <li><strong>Solver:</strong> simpleFoam (SIMPLE algorithm)</li>\<newline>'' @
     ''        <li><strong>Mesh:</strong> 20x20 structured grid</li>\<newline>'' @
     ''        <li><strong>Convergence Criteria:</strong> Residual < 1e-3</li>\<newline>'' @
     ''        <li><strong>Boundary Conditions:</strong> Moving lid cavity</li>\<newline>'' @
     ''    </ul>\<newline>'' @
     ''    \<newline>'' @
     ''    <h2>'' @
     [CHR 0xF0, CHR 0x9F, CHR 0x93, CHR 0x88] @
     '' CI/CD Integration</h2>\<newline>'' @
     ''    <p>This report demonstrates:</p>\<newline>'' @
     ''    <ul>\<newline>'' @
     ''        <li>'' @
     [CHR 0xE2, CHR 0x9C, CHR 0x85] @
     '' Automated parametric studies</li>\<newline>'' @
     ''        <li>'' @
     [CHR 0xE2, CHR 0x9C, CHR 0x85] @
     '' Quality validation and convergence checking</li>\<newline>'' @
     ''        <li>'' @
     [CHR 0xE2, CHR 0x9C, CHR 0x85] @
     '' Performance monitoring and metrics collection</li>\<newline>'' @
     ''        <li>'' @
     [CHR 0xE2, CHR 0x9C, CHR 0x85] @
     '' Structured reporting for DevOps integration</li>\<newline>'' @
     ''    </ul>\<newline>'' @
     ''    \<newline>'' @
     ''    <footer style="margin-top: 50px; padding: 20px; background-color: #f9f9f9; border-radius: 5px;">\<newline>'' @
     ''        <p><em>Report generated by OpenFOAM CI/CD Pipeline</em></p>\<newline>'' @
     ''        <p>For questions or issues, contact the DevOps team.</p>\<newline>'' @
     ''    </footer>\<newline>'' @
     ''</body>\<newline>'' @
     ''</html>\<newline>''\<close>

definition status_class :: "string \<Rightarrow> string" where
  "status_class s =
     (if s = ''SUCCESS'' then ''success'' else if s = ''FAILED'' then ''failed'' else ''warning'')"

text \<open>\<open>str\<close> of a cell.\<close>

definition str_val :: "lib \<Rightarrow> pyval \<Rightarrow> string" where
  "str_val L v = (case v of PStr s \<Rightarrow> s | PFloat f \<Rightarrow> str_float L f | PInt n \<Rightarrow> str_int n)"

definition html_head :: "lib \<Rightarrow> string \<Rightarrow> row list \<Rightarrow> real \<Rightarrow> string" where
  "html_head L now df rate =
     html_head_1 @ now @ html_head_2 @ str_int (total_cases df) @ html_head_3
     @ fmt_1f L (Fin rate) @ html_head_4 @ str_int (successful_cases df) @ html_head_5
     @ fmt_1f L (avg_runtime df) @ html_head_6"

definition row_html :: "lib \<Rightarrow> row \<Rightarrow> string" where
  "row_html L r =
     html_row_1 @ str_int (Reynolds r) @ html_row_2 @ status_class (Status r) @ html_row_3
     @ Status r @ html_row_4 @ str_float L (Fin (Runtime r)) @ html_row_5
     @ str_val L (FinalResidual r) @ html_row_6 @ convergence_quality (FinalResidual r)
     @ html_row_7"

text \<open>The whole document; \<open>now\<close> is the formatted time of the run. The loop over the
  rows appends one table row each.\<close>

definition html_content :: "lib \<Rightarrow> string \<Rightarrow> row list \<Rightarrow> exn + string" where
  "html_content L now df =
     bind_exn (success_rate df) (\<lambda>rate.
       Inr (foldl (\<lambda>h r. h @ row_html L r) (html_head L now df rate) df @ html_tail))"

definition report_name :: string where
  "report_name = ''parametric_study_report.html''"

definition generate_html_report :: "lib \<Rightarrow> string \<Rightarrow> string \<Rightarrow> world \<Rightarrow> (exn + string option) \<times> world" where
  "generate_html_report L now results_dir w =
     (if \<not> path_exists w (summary_path results_dir) then
        (Inr None, print (''Error: Summary file not found: '' @ summary_path results_dir) w)
      else
        (case bind_exn (read_file w (summary_path results_dir)) (\<lambda>c.
              bind_exn (read_summary L c) (\<lambda>df.
              bind_exn (html_content L now df) (\<lambda>html.
              write_file results_dir report_name html w))) of
           Inl e \<Rightarrow> (Inl e, w)
         | Inr w' \<Rightarrow>
             (Inr (Some (path_join results_dir report_name)),
              print (''Generated HTML report: '' @ path_join results_dir report_name) w')))"

subsection \<open>\<open>main\<close>\<close>

definition report_usage :: string where
  "report_usage = ''Usage: python3 generate-report.py <results_directory>''"

definition main_report :: "lib \<Rightarrow> string \<Rightarrow> string list \<Rightarrow> world \<Rightarrow> outcome \<times> world" where
  "main_report L now argv w =
     (if length argv \<noteq> 2 then (Exit 1, print report_usage w)
      else
        let results_dir = argv ! 1 in
        if \<not> path_exists w results_dir then
          (Exit 1, print (''Error: Results directory not found: '' @ results_dir) w)
        else
          let w1 = print (''Generating comprehensive report for: '' @ results_dir) w in
          (case generate_summary_plots L results_dir w1 of
             (Inl e, w2) \<Rightarrow> (Uncaught e, w2)
           | (Inr _, w2) \<Rightarrow>
               (case generate_html_report L now results_dir w2 of
                  (Inl e, w3) \<Rightarrow> (Uncaught e, w3)
                | (Inr _, w3) \<Rightarrow>
                    (Exit 0,
                     print (''Open '' @ results_dir
                             @ ''/parametric_study_report.html to view the report'')
                       (print ''Report generation completed successfully!'' w3)))))"

section \<open>Sample inputs\<close>

text \<open>A summary table as pandas reads it when the residual column holds a word: the
  numbers of that column stay strings, and an \<^verbatim>\<open>N/A\<close> field is read as NaN.\<close>

definition sample_rows :: "row list" where
  "sample_rows =
     [\<lparr>Reynolds = 100, Status = ''SUCCESS'', Runtime = 12.5, FinalResidual = PStr ''0.0005''\<rparr>,
      \<lparr>Reynolds = 400, Status = ''SUCCESS'', Runtime = 20, FinalResidual = PFloat NaN\<rparr>,
      \<lparr>Reynolds = 1000, Status = ''SUCCESS'', Runtime = 31, FinalResidual = PStr ''0.01''\<rparr>,
      \<lparr>Reynolds = 5000, Status = ''FAILED'', Runtime = 3, FinalResidual = PStr ''abc''\<rparr>]"

text \<open>Libraries that read the content \<^verbatim>\<open>table\<close> as \<open>sample_rows\<close> and the content
  \<^verbatim>\<open>log\<close> as a residual log of two iterations, and fail on any other content. Of the
  strings in \<open>sample_rows\<close> they convert the two decimal numbers and not the word; the
  samples hold no other string.\<close>

definition sample_lib :: lib where
  "sample_lib =
     \<lparr>read_summary = (\<lambda>c. if c = ''table'' then Inr sample_rows
                           else Inl (LibraryError ''ParserError'')),
      read_residuals = (\<lambda>c. if c = ''log'' then Inr [[1, 2], [0.5, 0.1], [0.4, 0.2], [0.3, 0.1]]
                             else Inl (LibraryError ''ParserError'')),
      to_numeric_str = (\<lambda>s. if s = ''0.0005'' then Fin 0.0005
                             else if s = ''0.01'' then Fin 0.01 else NaN),
      render = (\<lambda>fig. Inr ''PNG''),
      fmt_1f = (\<lambda>f. ''0.0''),
      str_float = (\<lambda>f. ''1.0''),
      str_exn = (\<lambda>e. ''error'')\<rparr>"

text \<open>A case directory with a residual log, one with a damaged log, a results directory
  with a summary table, and an empty results directory. The case directories have their
  \<^verbatim>\<open>plots\<close> subdirectory already.\<close>

definition case_world :: world where
  "case_world =
     \<lparr>fs = [''case'' \<mapsto> Dir, ''case/plots'' \<mapsto> Dir,
             residuals_path ''case'' \<mapsto> File ''log''],
      stdout = []\<rparr>"

definition damaged_world :: world where
  "damaged_world =
     \<lparr>fs = [''case'' \<mapsto> Dir, ''case/plots'' \<mapsto> Dir,
             residuals_path ''case'' \<mapsto> File ''garbage''],
      stdout = []\<rparr>"

definition results_world :: world where
  "results_world =
     \<lparr>fs = [''results'' \<mapsto> Dir, summary_path ''results'' \<mapsto> File ''table''], stdout = []\<rparr>"

definition empty_results_world :: world where
  "empty_results_world = \<lparr>fs = [''results'' \<mapsto> Dir], stdout = []\<rparr>"

section \<open>Properties\<close>

subsection \<open>Helper facts\<close>

lemmas parse_defs =
  float_of_str_def absfloatvalue_def floatnumber_def mk_float_def exponent_def digitpart_def
  take_sign_def strip_def is_space_def is_digit_def digit_val_def lower_def nat_of_digits_def

lemma bind_exn_simps [simp]:
  "bind_exn (Inl e) f = Inl e"
  "bind_exn (Inr x) f = f x"
  by (simp_all add: bind_exn_def)

lemma fs_print [simp]: "fs (print s w) = fs w"
  by (simp add: print_def)

lemma stdout_print [simp]: "stdout (print s w) = stdout w @ [s]"
  by (simp add: print_def)

lemma path_exists_print [simp]: "path_exists (print s w) p = path_exists w p"
  by (simp add: path_exists_def)

lemma differs_from_str_iff: "differs_from_str v s \<longleftrightarrow> v \<noteq> PStr s"
  by (cases v) (simp_all add: differs_from_str_def)

lemma float_le_not_gt: "float_le v (Fin b) \<Longrightarrow> b \<le> c \<Longrightarrow> \<not> float_gt v (Fin c)"
  by (cases v) simp_all

lemma float_of_str_abc: "float_of_str ''abc'' = Inl ValueError"
  by (simp add: parse_defs)

lemma float_of_str_samples:
  "float_of_str ''0.0005'' = Inr (Fin 0.0005)"
  "float_of_str ''0.00005'' = Inr (Fin 0.00005)"
  "float_of_str ''0.01'' = Inr (Fin 0.01)"
  by (simp_all add: parse_defs)

lemma float_overflow_gt_1: "1 < float_overflow"
proof -
  have aux: "\<And>x y :: real. x * 2 \<le> y \<Longrightarrow> 2 \<le> x \<Longrightarrow> 1 < y - x"
    by linarith
  have "(2::real) ^ 970 * 2 ^ 1 \<le> 2 ^ 970 * 2 ^ 54"
    by (intro mult_left_mono power_increasing) simp_all
  then have a: "(2::real) ^ 970 * 2 \<le> 2 ^ 1024"
    by (simp only: power_add [symmetric] power_one_right) simp
  have "(2::real) ^ 1 \<le> 2 ^ 970"
    by (rule power_increasing) simp_all
  then have b: "(2::real) \<le> 2 ^ 970"
    by (simp only: power_one_right)
  show ?thesis
    unfolding float_overflow_def by (rule aux [OF a b])
qed

lemma ratio_in_range:
  assumes "xs \<noteq> []" and "k \<le> length xs"
  shows "py_truediv (int k) (int (length xs)) = Inr (real k / real (length xs))"
proof -
  from assms have "real k / real (length xs) \<le> 1"
    by simp
  moreover have "0 \<le> real k / real (length xs)"
    by simp
  ultimately have "\<bar>real k / real (length xs)\<bar> < float_overflow"
    using float_overflow_gt_1 by linarith
  with assms(1) show ?thesis
    by (simp add: py_truediv_def)
qed

subsection \<open>Convergence quality\<close>

text \<open>
  C2. The quality label of a row is \<^verbatim>\<open>Excellent\<close> for the string \<^verbatim>\<open>N/A\<close>. For any other
  cell it is \<^verbatim>\<open>Unknown\<close> when \<open>float\<close> raises; when \<open>float\<close> returns \<open>v\<close> it is \<^verbatim>\<open>Poor\<close>
  for \<open>v > 0.001\<close>, \<^verbatim>\<open>Good\<close> for \<open>v > 0.0001\<close> otherwise, and \<^verbatim>\<open>Excellent\<close> in every
  remaining case, in particular for \<open>v \<le> 0.0001\<close>. The values 0.0005, 0.00005 and 0.01 give
  \<^verbatim>\<open>Good\<close>, \<^verbatim>\<open>Excellent\<close> and \<^verbatim>\<open>Poor\<close>, and the string \<^verbatim>\<open>abc\<close> gives \<^verbatim>\<open>Unknown\<close>.
\<close>

theorem convergence_quality_classification:
  "convergence_quality (PStr ''N/A'') = ''Excellent''
   \<and> (fr \<noteq> PStr ''N/A'' \<longrightarrow>
        (\<forall>e. py_float fr = Inl e \<longrightarrow> convergence_quality fr = ''Unknown'')
      \<and> (\<forall>v. py_float fr = Inr v \<longrightarrow>
             (float_gt v (Fin 0.001) \<longrightarrow> convergence_quality fr = ''Poor'')
           \<and> (\<not> float_gt v (Fin 0.001) \<and> float_gt v (Fin 0.0001) \<longrightarrow>
                 convergence_quality fr = ''Good'')
           \<and> (\<not> float_gt v (Fin 0.0001) \<longrightarrow> convergence_quality fr = ''Excellent'')
           \<and> (float_le v (Fin 0.0001) \<longrightarrow> convergence_quality fr = ''Excellent'')))
   \<and> convergence_quality (PFloat (Fin 0.0005)) = ''Good''
   \<and> convergence_quality (PFloat (Fin 0.00005)) = ''Excellent''
   \<and> convergence_quality (PFloat (Fin 0.01)) = ''Poor''
   \<and> convergence_quality (PStr ''abc'') = ''Unknown''"
proof -
  have na: "convergence_quality (PStr ''N/A'') = ''Excellent''"
    by (simp add: convergence_quality_def differs_from_str_def)
  have gen: "fr \<noteq> PStr ''N/A'' \<longrightarrow>
        (\<forall>e. py_float fr = Inl e \<longrightarrow> convergence_quality fr = ''Unknown'')
      \<and> (\<forall>v. py_float fr = Inr v \<longrightarrow>
             (float_gt v (Fin 0.001) \<longrightarrow> convergence_quality fr = ''Poor'')
           \<and> (\<not> float_gt v (Fin 0.001) \<and> float_gt v (Fin 0.0001) \<longrightarrow>
                 convergence_quality fr = ''Good'')
           \<and> (\<not> float_gt v (Fin 0.0001) \<longrightarrow> convergence_quality fr = ''Excellent'')
           \<and> (float_le v (Fin 0.0001) \<longrightarrow> convergence_quality fr = ''Excellent''))"
  proof (intro impI conjI allI)
    fix e assume "fr \<noteq> PStr ''N/A''" "py_float fr = Inl e"
    then show "convergence_quality fr = ''Unknown''"
      by (simp add: convergence_quality_def differs_from_str_iff)
  next
    fix v assume "fr \<noteq> PStr ''N/A''" "py_float fr = Inr v" "float_gt v (Fin 0.001)"
    then show "convergence_quality fr = ''Poor''"
      by (simp add: convergence_quality_def differs_from_str_iff)
  next
    fix v assume "fr \<noteq> PStr ''N/A''" "py_float fr = Inr v"
      "\<not> float_gt v (Fin 0.001) \<and> float_gt v (Fin 0.0001)"
    then show "convergence_quality fr = ''Good''"
      by (simp add: convergence_quality_def differs_from_str_iff)
  next
    fix v assume a: "fr \<noteq> PStr ''N/A''" "py_float fr = Inr v"
      and ngt: "\<not> float_gt v (Fin 0.0001)"
    have "\<not> float_gt v (Fin 0.001)" using ngt by (cases v) simp_all
    then show "convergence_quality fr = ''Excellent''"
      using a ngt by (simp add: convergence_quality_def differs_from_str_iff)
  next
    fix v assume a: "fr \<noteq> PStr ''N/A''" "py_float fr = Inr v"
      and le: "float_le v (Fin 0.0001)"
    have "\<not> float_gt v (Fin 0.0001)" "\<not> float_gt v (Fin 0.001)"
      using le by (simp_all add: float_le_not_gt)
    then show "convergence_quality fr = ''Excellent''"
      using a by (simp add: convergence_quality_def differs_from_str_iff)
  qed
  have ex: "convergence_quality (PFloat (Fin 0.0005)) = ''Good''"
    "convergence_quality (PFloat (Fin 0.00005)) = ''Excellent''"
    "convergence_quality (PFloat (Fin 0.01)) = ''Poor''"
    by (simp_all add: convergence_quality_def differs_from_str_def)
  have abc: "convergence_quality (PStr ''abc'') = ''Unknown''"
    by (simp add: convergence_quality_def differs_from_str_def float_of_str_abc)
  from na gen ex abc show ?thesis by blast
qed

text \<open>The same labels for cells that hold the numbers as strings, and for the NaN that
  pandas reads from an \<^verbatim>\<open>N/A\<close> field.\<close>

theorem convergence_quality_classification_witness:
  "convergence_quality (PStr ''0.0005'') = ''Good''
   \<and> convergence_quality (PStr ''0.00005'') = ''Excellent''
   \<and> convergence_quality (PStr ''0.01'') = ''Poor''
   \<and> convergence_quality (PStr ''abc'') = ''Unknown''
   \<and> convergence_quality (PFloat NaN) = ''Excellent''"
  using convergence_quality_classification [of "PStr ''0.0005''"]
    convergence_quality_classification [of "PStr ''0.00005''"]
    convergence_quality_classification [of "PStr ''0.01''"]
    convergence_quality_classification [of "PStr ''abc''"]
    convergence_quality_classification [of "PFloat NaN"]
  by (simp add: float_of_str_samples float_of_str_abc)

subsection \<open>Headline metrics\<close>





subsection \<open>The plot generator\<close>

lemma py_int_error: "py_int s = Inl e \<Longrightarrow> e = ValueError"
  by (auto simp: py_int_def split: prod.splits option.splits list.splits)

lemma mkdir_exist_ok_dir:
  "mkdir_exist_ok d name w = Inr w1 \<Longrightarrow> fs w1 (path_join d name) = Some Dir"
  by (auto simp: mkdir_exist_ok_def split: option.splits node.splits)

lemma sample_paths:
  "residuals_path ''case'' = ''case/postProcessing/residuals/0/residuals.dat''"
  "path_join ''case'' ''plots'' = ''case/plots''"
  "residuals_png 100 = ''residuals_Re100.png''"
  "velocity_png 100 = ''velocity_profile_Re100.png''"
  "summary_path ''results'' = ''results/summary.csv''"
  by code_simp+

lemma py_int_100: "py_int ''100'' = Inr 100"
  by (simp add: py_int_def parse_defs)

lemmas plots_eval =
  main_plots_def py_int_100 mkdir_exist_ok_def sample_paths plot_residuals_def
  plot_residuals_try_def path_exists_def read_file_def sample_lib_def set_columns_def
  savefig_def write_file_def path_join_def plot_velocity_profile_def plot_velocity_try_def
  u_profile_def Let_def

text \<open>
  C5. \<open>plot_residuals\<close> returns a flag and never raises. Without a file at
  \<^verbatim>\<open>postProcessing/residuals/0/residuals.dat\<close> under the case directory the flag is false and
  the file system is unchanged. With a log that pandas reads as four columns, a figure that
  renders and an output directory that exists (as \<open>main\<close> has created it), the flag is true
  and the image is the file \<^verbatim>\<open>residuals_Re<n>.png\<close> of the output directory. Whatever
  exception the \<open>try\<close> block raises, the flag is false and no file is written.
\<close>

theorem plot_residuals_contract:
  "(\<not> path_exists w (residuals_path case_dir) \<longrightarrow>
      fst (plot_residuals L case_dir n out w) = False
      \<and> fs (snd (plot_residuals L case_dir n out w)) = fs w)
   \<and> (\<forall>content t ux uy p png.
         fs w (residuals_path case_dir) = Some (File content)
         \<and> read_residuals L content = Inr [t, ux, uy, p]
         \<and> render L (ResidualsFig n t ux uy p) = Inr png
         \<and> fs w out = Some Dir \<and> fs w (path_join out (residuals_png n)) \<noteq> Some Dir \<longrightarrow>
         fst (plot_residuals L case_dir n out w) = True
         \<and> fs (snd (plot_residuals L case_dir n out w))
             = (fs w)(path_join out (residuals_png n) \<mapsto> File png))
   \<and> (\<forall>e. path_exists w (residuals_path case_dir)
         \<and> plot_residuals_try L case_dir n out w = Inl e \<longrightarrow>
         fst (plot_residuals L case_dir n out w) = False
         \<and> fs (snd (plot_residuals L case_dir n out w)) = fs w)
   \<and> (\<forall>w0. mkdir_exist_ok case_dir ''plots'' w0 = Inr w \<longrightarrow>
         fs w (path_join case_dir ''plots'') = Some Dir)"
proof (intro conjI allI impI)
  assume "\<not> path_exists w (residuals_path case_dir)"
  then show "fst (plot_residuals L case_dir n out w) = False"
    "fs (snd (plot_residuals L case_dir n out w)) = fs w"
    by (simp_all add: plot_residuals_def)
next
  fix content t ux uy p png
  assume a: "fs w (residuals_path case_dir) = Some (File content)
         \<and> read_residuals L content = Inr [t, ux, uy, p]
         \<and> render L (ResidualsFig n t ux uy p) = Inr png
         \<and> fs w out = Some Dir \<and> fs w (path_join out (residuals_png n)) \<noteq> Some Dir"
  then have ex: "path_exists w (residuals_path case_dir)"
    by (simp add: path_exists_def)
  from a have body:
    "plot_residuals_try L case_dir n out w =
       Inr (print (''Generated residuals plot: '' @ path_join out (residuals_png n))
             (w\<lparr>fs := (fs w)(path_join out (residuals_png n) \<mapsto> File png)\<rparr>))"
    by (auto simp: plot_residuals_try_def read_file_def set_columns_def savefig_def
        write_file_def split: option.splits node.splits)
  show "fst (plot_residuals L case_dir n out w) = True"
    "fs (snd (plot_residuals L case_dir n out w))
             = (fs w)(path_join out (residuals_png n) \<mapsto> File png)"
    using ex body by (simp_all add: plot_residuals_def)
next
  fix e
  assume "path_exists w (residuals_path case_dir)
         \<and> plot_residuals_try L case_dir n out w = Inl e"
  then show "fst (plot_residuals L case_dir n out w) = False"
    "fs (snd (plot_residuals L case_dir n out w)) = fs w"
    by (simp_all add: plot_residuals_def)
next
  fix w0
  assume "mkdir_exist_ok case_dir ''plots'' w0 = Inr w"
  then show "fs w (path_join case_dir ''plots'') = Some Dir"
    by (rule mkdir_exist_ok_dir)
qed

text \<open>A present log, a missing log and a damaged log.\<close>

theorem plot_residuals_contract_witness:
  "fst (plot_residuals sample_lib ''case'' 100 ''case/plots'' case_world) = True
   \<and> fs (snd (plot_residuals sample_lib ''case'' 100 ''case/plots'' case_world))
        ''case/plots/residuals_Re100.png'' = Some (File ''PNG'')
   \<and> fst (plot_residuals sample_lib ''case'' 100 ''case/plots'' empty_results_world) = False
   \<and> fs (snd (plot_residuals sample_lib ''case'' 100 ''case/plots'' empty_results_world))
        = fs empty_results_world
   \<and> plot_residuals_try sample_lib ''case'' 100 ''case/plots'' damaged_world
        = Inl (LibraryError ''ParserError'')
   \<and> fst (plot_residuals sample_lib ''case'' 100 ''case/plots'' damaged_world) = False
   \<and> fs (snd (plot_residuals sample_lib ''case'' 100 ''case/plots'' damaged_world))
        = fs damaged_world"
proof -
  have dam: "plot_residuals_try sample_lib ''case'' 100 ''case/plots'' damaged_world
        = Inl (LibraryError ''ParserError'')"
    by (simp add: plot_residuals_try_def read_file_def damaged_world_def sample_lib_def
        sample_paths)
  show ?thesis
    using plot_residuals_contract [of case_world "''case''" sample_lib 100 "''case/plots''"]
      plot_residuals_contract [of empty_results_world "''case''" sample_lib 100 "''case/plots''"]
      plot_residuals_contract [of damaged_world "''case''" sample_lib 100 "''case/plots''"]
      dam
    by (simp add: case_world_def empty_results_world_def damaged_world_def sample_lib_def
        sample_paths path_exists_def path_join_def)
qed

text \<open>
  C6. With an argument count other than two, the plot generator prints the usage line and
  exits with status 1. Its exit status is always 0 or 1, and it is 0 exactly when the
  arguments are two, the residual plot and the velocity plot were both run and both
  returned true.
\<close>

theorem main_plots_exit_status:
  "(length argv \<noteq> 3 \<longrightarrow> main_plots L argv w = (Exit 1, print plots_usage w))
   \<and> (exit_status (fst (main_plots L argv w)) = 0
        \<or> exit_status (fst (main_plots L argv w)) = 1)
   \<and> (exit_status (fst (main_plots L argv w)) = 0 \<longleftrightarrow>
        length argv = 3
        \<and> (\<exists>n w1 w3 w4.
              py_int (argv ! 2) = Inr n
              \<and> mkdir_exist_ok (argv ! 1) ''plots'' w = Inr w1
              \<and> plot_residuals L (argv ! 1) n (path_join (argv ! 1) ''plots'')
                   (print (generating_msg (argv ! 1) n) w1) = (True, w3)
              \<and> plot_velocity_profile L (argv ! 1) n (path_join (argv ! 1) ''plots'') w3
                   = (True, w4)))"
  by (auto simp: main_plots_def Let_def split: sum.splits prod.splits)

theorem main_plots_exit_status_witness:
  "main_plots sample_lib [''generate-plots.py'', ''case''] case_world
     = (Exit 1, print plots_usage case_world)
   \<and> exit_status (fst (main_plots sample_lib [''generate-plots.py'', ''case'', ''100'']
        case_world)) = 0
   \<and> exit_status (fst (main_plots sample_lib [''generate-plots.py'', ''case'', ''100'']
        damaged_world)) = 1"
  using main_plots_exit_status [of "[''generate-plots.py'', ''case'']" sample_lib case_world]
    main_plots_exit_status [of "[''generate-plots.py'', ''case'', ''100'']" sample_lib case_world]
    main_plots_exit_status [of "[''generate-plots.py'', ''case'', ''100'']" sample_lib
      damaged_world]
  by (simp add: plots_eval case_world_def damaged_world_def)

text \<open>
  C10. With two arguments of which the second is not an integer literal, \<open>int\<close> raises
  \<open>ValueError\<close> and nothing catches it: the process ends by that exception, having printed
  nothing and changed nothing, and not by the usage line and \<open>sys.exit(1)\<close>.
\<close>

theorem main_plots_bad_reynolds:
  "length argv = 3 \<Longrightarrow> py_int (argv ! 2) = Inl e \<Longrightarrow>
     main_plots L argv w = (Uncaught ValueError, w)
     \<and> main_plots L argv w \<noteq> (Exit 1, print plots_usage w)"
  by (auto simp: main_plots_def dest: py_int_error)

theorem main_plots_bad_reynolds_witness:
  "py_int ''abc'' = Inl ValueError
   \<and> main_plots sample_lib [''generate-plots.py'', ''case'', ''abc''] case_world
       = (Uncaught ValueError, case_world)
   \<and> py_int ''1.5'' = Inl ValueError
   \<and> main_plots sample_lib [''generate-plots.py'', ''case'', ''1.5''] case_world
       = (Uncaught ValueError, case_world)"
proof -
  have a: "py_int ''abc'' = Inl ValueError" "py_int ''1.5'' = Inl ValueError"
    by (simp_all add: py_int_def parse_defs)
  show ?thesis
    using a main_plots_bad_reynolds [of "[''generate-plots.py'', ''case'', ''abc'']" ValueError
        sample_lib case_world]
      main_plots_bad_reynolds [of "[''generate-plots.py'', ''case'', ''1.5'']" ValueError
        sample_lib case_world]
    by simp
qed

lemma truediv_1000:
  "py_truediv (- n) 1000 =
     (if float_overflow \<le> \<bar>real_of_int n / 1000\<bar> then Inl OverflowError
      else Inr (- (real_of_int n / 1000)))"
  by (simp add: py_truediv_def)

lemma u_profile_low:
  "n \<le> 100 \<Longrightarrow> u_profile n = Inr (map (\<lambda>y. sin (pi * y) * 0.8) y_grid)"
  by (simp add: u_profile_def)

lemma u_profile_high:
  "100 < n \<Longrightarrow> real_of_int n / 1000 < float_overflow \<Longrightarrow>
     u_profile n = Inr (map (\<lambda>y. sin (pi * y) * (1 - exp (- (real_of_int n / 1000)))) y_grid)"
  by (simp add: u_profile_def truediv_1000)

lemma u_profile_overflow:
  "100 < n \<Longrightarrow> float_overflow \<le> real_of_int n / 1000 \<Longrightarrow> u_profile n = Inl OverflowError"
  by (simp add: u_profile_def truediv_1000)

lemma overflow_at_10_312: "float_overflow \<le> real_of_int (10 ^ 312) / 1000"
proof -
  have "(2::real) ^ 1024 \<le> 10 ^ 309"
    by simp
  moreover have "(0::real) \<le> 2 ^ 970"
    by simp
  moreover have "real_of_int (10 ^ 312) / 1000 = 10 ^ 309"
    by simp
  ultimately show ?thesis
    unfolding float_overflow_def by linarith
qed

text \<open>
  C7, as the code has it. The grid has the 50 points \<open>i / 49\<close>, and the V profile is 0 at
  each of them. For a Reynolds number \<open>n\<close> up to 100, and for a larger one whose quotient
  \<open>n / 1000\<close> is below \<open>2 ^ 1024 - 2 ^ 970\<close>, the U profile at every grid point \<open>y\<close> is
  \<open>0.8 * sin (pi * y)\<close> for \<open>n \<le> 100\<close> and \<open>sin (pi * y) * (1 - exp (- n / 1000))\<close> above
  100. For a Reynolds number beyond that, the division \<open>-n / 1000\<close> raises \<open>OverflowError\<close>:
  there is no U profile, and \<open>plot_velocity_profile\<close> prints the error, writes nothing and
  returns false. When \<open>plot_velocity_profile\<close> returns true, the figure it has saved holds
  the grid and these two profiles.
\<close>

theorem velocity_profiles:
  "length y_grid = 50
   \<and> (\<forall>i<50. y_grid ! i = real i / 49)
   \<and> (n \<le> 100 \<or> real_of_int n / 1000 < float_overflow \<longrightarrow>
        (\<exists>u. u_profile n = Inr u \<and> length u = 50
           \<and> (\<forall>i<50. u ! i =
                 (if n \<le> 100 then 0.8 * sin (pi * (y_grid ! i))
                  else sin (pi * (y_grid ! i)) * (1 - exp (- (real_of_int n / 1000)))))))
   \<and> (100 < n \<and> float_overflow \<le> real_of_int n / 1000 \<longrightarrow>
        u_profile n = Inl OverflowError
        \<and> plot_velocity_profile L case_dir n out w
            = (False, print (''Error plotting velocity profile: ''
                              @ str_exn L OverflowError) w))
   \<and> length v_profile = 50
   \<and> (\<forall>i<50. v_profile ! i = 0)
   \<and> (\<forall>w'. plot_velocity_profile L case_dir n out w = (True, w') \<longrightarrow>
         (\<exists>u png. u_profile n = Inr u
            \<and> render L (VelocityFig n y_grid u v_profile) = Inr png
            \<and> fs w' (path_join out (velocity_png n)) = Some (File png)))"
proof -
  have len: "length y_grid = 50"
    by (simp add: y_grid_def linspace_def)
  have grid: "\<forall>i<50. y_grid ! i = real i / 49"
    by (simp add: y_grid_def linspace_def)
  have u: "n \<le> 100 \<or> real_of_int n / 1000 < float_overflow \<longrightarrow>
        (\<exists>u. u_profile n = Inr u \<and> length u = 50
           \<and> (\<forall>i<50. u ! i =
                 (if n \<le> 100 then 0.8 * sin (pi * (y_grid ! i))
                  else sin (pi * (y_grid ! i)) * (1 - exp (- (real_of_int n / 1000))))))"
  proof (cases "n \<le> 100")
    case True
    then show ?thesis
      using len by (simp add: u_profile_low)
  next
    case False
    then show ?thesis
      using len by (simp add: u_profile_high)
  qed
  have over: "100 < n \<and> float_overflow \<le> real_of_int n / 1000 \<longrightarrow>
        u_profile n = Inl OverflowError
        \<and> plot_velocity_profile L case_dir n out w
            = (False, print (''Error plotting velocity profile: ''
                              @ str_exn L OverflowError) w)"
    by (simp add: u_profile_overflow plot_velocity_profile_def plot_velocity_try_def)
  have v: "length v_profile = 50" "\<forall>i<50. v_profile ! i = 0"
    using len by (simp_all add: v_profile_def)
  have saved: "\<forall>w'. plot_velocity_profile L case_dir n out w = (True, w') \<longrightarrow>
         (\<exists>u png. u_profile n = Inr u
            \<and> render L (VelocityFig n y_grid u v_profile) = Inr png
            \<and> fs w' (path_join out (velocity_png n)) = Some (File png))"
    by (auto simp: plot_velocity_profile_def plot_velocity_try_def savefig_def write_file_def
        bind_exn_def split: sum.splits option.splits node.splits)
  from len grid u over v saved show ?thesis by blast
qed

text \<open>Reynolds numbers 100 and 1000 at the grid point \<open>1 / 7\<close>, the run that saves the
  figure for 1000, and the Reynolds number \<open>10 ^ 312\<close>.\<close>

theorem velocity_profiles_witness:
  "y_grid ! 7 = 1 / 7
   \<and> (\<exists>u. u_profile 100 = Inr u \<and> u ! 7 = 0.8 * sin (pi * (1 / 7)))
   \<and> (\<exists>u. u_profile 1000 = Inr u \<and> u ! 7 = sin (pi * (1 / 7)) * (1 - exp (- 1)))
   \<and> v_profile ! 7 = 0
   \<and> fst (plot_velocity_profile sample_lib ''case'' 1000 ''case/plots'' case_world) = True
   \<and> fs (snd (plot_velocity_profile sample_lib ''case'' 1000 ''case/plots'' case_world))
        ''case/plots/velocity_profile_Re1000.png'' = Some (File ''PNG'')
   \<and> u_profile (10 ^ 312) = Inl OverflowError
   \<and> fst (plot_velocity_profile sample_lib ''case'' (10 ^ 312) ''case/plots'' case_world)
        = False"
proof -
  let ?run = "plot_velocity_profile sample_lib ''case'' 1000 ''case/plots'' case_world"
  note a = velocity_profiles [of 100 sample_lib "''case''" "''case/plots''" case_world]
  note b = velocity_profiles [of 1000 sample_lib "''case''" "''case/plots''" case_world]
  note c = velocity_profiles [of "10 ^ 312" sample_lib "''case''" "''case/plots''" case_world]
  have low: "(100::int) \<le> 100 \<or> real_of_int 100 / 1000 < float_overflow"
    by simp
  have in_range: "(1000::int) \<le> 100 \<or> real_of_int 1000 / 1000 < float_overflow"
    using float_overflow_gt_1 by simp
  from a have "\<forall>i<50. y_grid ! i = real i / 49" by blast
  then have "y_grid ! 7 = real 7 / 49" by (simp del: of_nat_numeral)
  then have g: "y_grid ! 7 = 1 / 7" by simp
  from a low obtain u where u: "u_profile 100 = Inr u"
    "\<forall>i<50. u ! i = (if (100::int) \<le> 100 then 0.8 * sin (pi * (y_grid ! i))
                else sin (pi * (y_grid ! i)) * (1 - exp (- (real_of_int 100 / 1000))))"
    by blast
  from u(2) have "u ! 7 = 0.8 * sin (pi * (y_grid ! 7))"
    by simp
  then have u7: "u ! 7 = 0.8 * sin (pi * (1 / 7))"
    by (simp only: g)
  from b in_range obtain u' where u': "u_profile 1000 = Inr u'"
    "\<forall>i<50. u' ! i = (if (1000::int) \<le> 100 then 0.8 * sin (pi * (y_grid ! i))
                else sin (pi * (y_grid ! i)) * (1 - exp (- (real_of_int 1000 / 1000))))"
    by blast
  from u'(2) have "u' ! 7 = sin (pi * (y_grid ! 7)) * (1 - exp (- 1))"
    by simp
  then have u7': "u' ! 7 = sin (pi * (1 / 7)) * (1 - exp (- 1))"
    by (simp only: g)
  from a have "\<forall>i<50. v_profile ! i = 0" by blast
  then have v: "v_profile ! 7 = 0" by simp
  have png: "velocity_png 1000 = ''velocity_profile_Re1000.png''"
    by code_simp
  have run: "fst ?run = True"
    using u'(1)
    by (simp add: plot_velocity_profile_def plot_velocity_try_def savefig_def sample_lib_def
        write_file_def case_world_def path_join_def png sample_paths)
  then have "?run = (True, snd ?run)"
    by (simp add: prod_eq_iff)
  with b obtain u'' p where "render sample_lib (VelocityFig 1000 y_grid u'' v_profile) = Inr p"
    "fs (snd ?run) (path_join ''case/plots'' (velocity_png 1000)) = Some (File p)"
    by blast
  then have saved: "fs (snd ?run) ''case/plots/velocity_profile_Re1000.png''
      = Some (File ''PNG'')"
    by (auto simp: sample_lib_def path_join_def png)
  have big: "(100::int) < 10 ^ 312"
    by simp
  from c big overflow_at_10_312 have over: "u_profile (10 ^ 312) = Inl OverflowError"
    "fst (plot_velocity_profile sample_lib ''case'' (10 ^ 312) ''case/plots'' case_world)
       = False"
    by simp_all
  from g u(1) u7 u'(1) u7' v run saved over show ?thesis by blast
qed

text \<open>
  C7, as the specification states it, fails: for the Reynolds number \<open>10 ^ 312\<close> there is
  no U profile, and the plotter returns false.
\<close>

theorem velocity_profile_overflow_counterexample:
  "(100::int) < 10 ^ 312
   \<and> \<not> (\<exists>u. u_profile (10 ^ 312) = Inr u)
   \<and> fst (plot_velocity_profile sample_lib ''case'' (10 ^ 312) ''case/plots'' case_world)
       = False"
proof -
  have big: "(100::int) < 10 ^ 312"
    by simp
  then have "u_profile (10 ^ 312) = Inl OverflowError"
    using overflow_at_10_312 by (rule u_profile_overflow)
  with big show ?thesis
    by (simp add: plot_velocity_profile_def plot_velocity_try_def)
qed

subsection \<open>The report generator\<close>

lemma valid_rows:
  "map fst (filter (\<lambda>(r, x). P x) (zip xs (map f xs))) = filter (\<lambda>r. P (f r)) xs"
  by (induction xs) simp_all

lemma dropna_values:
  "filter P (map f xs) = map f (filter (\<lambda>r. P (f r)) xs)"
  by (induction xs) simp_all

lemma filter_both:
  "filter Q (filter P xs) = filter (\<lambda>r. P r \<and> Q r) xs"
  by (induction xs) simp_all

lemma residual_panel_eq:
  "residual_panel L df =
     (if filter (\<lambda>r. Status r = ''SUCCESS''
                     \<and> notna (to_numeric_coerce L (FinalResidual r))) df = [] then None
      else Some
        (map Reynolds (filter (\<lambda>r. Status r = ''SUCCESS''
                     \<and> notna (to_numeric_coerce L (FinalResidual r))) df),
         map (\<lambda>r. to_numeric_coerce L (FinalResidual r))
           (filter (\<lambda>r. Status r = ''SUCCESS''
                     \<and> notna (to_numeric_coerce L (FinalResidual r))) df)))"
proof (cases "with_status ''SUCCESS'' df = []")
  case True
  then have "filter (\<lambda>r. Status r = ''SUCCESS''
                     \<and> notna (to_numeric_coerce L (FinalResidual r))) df = []"
    by (auto simp: with_status_def filter_empty_conv)
  with True show ?thesis
    by (simp add: residual_panel_def)
next
  case False
  let ?s = "with_status ''SUCCESS'' df"
  let ?f = "\<lambda>r. to_numeric_coerce L (FinalResidual r)"
  let ?sel = "filter (\<lambda>r. Status r = ''SUCCESS'' \<and> notna (?f r)) df"
  have sel: "filter (\<lambda>r. notna (?f r)) ?s = ?sel"
    by (simp add: with_status_def filter_both)
  have "map fst (filter (\<lambda>(r, x). notna x) (zip ?s (map ?f ?s)))
          = filter (\<lambda>r. notna (?f r)) ?s"
    by (rule valid_rows)
  with sel have rows: "map fst (filter (\<lambda>(r, x). notna x) (zip ?s (map ?f ?s))) = ?sel"
    by (simp only:)
  have "filter notna (map ?f ?s) = map ?f (filter (\<lambda>r. notna (?f r)) ?s)"
    by (rule dropna_values)
  with sel have vals: "filter notna (map ?f ?s) = map ?f ?sel"
    by (simp only:)
  have "residual_panel L df =
     (if map fst (filter (\<lambda>(r, x). notna x) (zip ?s (map ?f ?s))) \<noteq> [] then
        Some (map Reynolds (map fst (filter (\<lambda>(r, x). notna x) (zip ?s (map ?f ?s)))),
              filter notna (map ?f ?s))
      else None)"
    using False unfolding residual_panel_def Let_def
    by (simp only: if_True not_False_eq_True)
  then show ?thesis
    unfolding rows vals by simp
qed

lemma summary_plot_saved:
  assumes "generate_summary_plots L d w = (Inr (Some p), w')"
  shows "\<exists>c df png. fs w (summary_path d) = Some (File c) \<and> read_summary L c = Inr df
           \<and> render L (summary_figure L df) = Inr png \<and> fs w' p = Some (File png)"
proof (cases "path_exists w (summary_path d)")
  case False
  with assms show ?thesis
    by (simp add: generate_summary_plots_def)
next
  case True
  show ?thesis
  proof (cases "bind_exn (read_file w (summary_path d)) (read_summary L)")
    case (Inl e)
    with True assms show ?thesis
      by (simp add: generate_summary_plots_def)
  next
    case (Inr df)
    then obtain c where c: "fs w (summary_path d) = Some (File c)" "read_summary L c = Inr df"
      by (auto simp: read_file_def bind_exn_def split: option.splits node.splits sum.splits)
    let ?w1 = "print (''Processing '' @ str_int (int (length df)) @ '' simulation results'') w"
    show ?thesis
    proof (cases "savefig L (summary_figure L df) d ''parametric_study_summary.png'' ?w1")
      case (Inl e)
      with True Inr assms show ?thesis
        by (simp add: generate_summary_plots_def Let_def)
    next
      case (Inr w2)
      with True \<open>bind_exn (read_file w (summary_path d)) (read_summary L) = Inr df\<close> assms
      have p: "p = path_join d ''parametric_study_summary.png''" and w': "fs w' = fs w2"
        by (auto simp: generate_summary_plots_def Let_def)
      from Inr obtain png where png: "render L (summary_figure L df) = Inr png"
        "fs w2 (path_join d ''parametric_study_summary.png'') = Some (File png)"
        by (auto simp: savefig_def write_file_def bind_exn_def
            split: sum.splits option.splits node.splits)
      from c png p w' show ?thesis
        by auto
    qed
  qed
qed

text \<open>
  C8. The residual panel is drawn from exactly the rows with status \<^verbatim>\<open>SUCCESS\<close> whose
  final residual pandas converts to a number other than NaN, in the order of the table: the
  Reynolds numbers of those rows against their converted residuals. A number converts to
  itself, a string to what pandas reads in it. A row whose residual does not convert, the
  NaN that pandas reads from an \<^verbatim>\<open>N/A\<close> field or a string that pandas does not read as a
  number, adds no point to the series, which holds no NaN and no value for that row.
  Without a row that converts the panel is absent. This panel is the third of the figure
  that \<open>generate_summary_plots\<close> renders and saves.
\<close>

theorem residual_panel_rows:
  "residual_panel L df =
     (if filter (\<lambda>r. Status r = ''SUCCESS''
                     \<and> notna (to_numeric_coerce L (FinalResidual r))) df = [] then None
      else Some
        (map Reynolds (filter (\<lambda>r. Status r = ''SUCCESS''
                     \<and> notna (to_numeric_coerce L (FinalResidual r))) df),
         map (\<lambda>r. to_numeric_coerce L (FinalResidual r))
           (filter (\<lambda>r. Status r = ''SUCCESS''
                     \<and> notna (to_numeric_coerce L (FinalResidual r))) df)))
   \<and> to_numeric_coerce L (PStr s) = to_numeric_str L s
   \<and> to_numeric_coerce L (PFloat f) = f
   \<and> to_numeric_coerce L (PInt k) = Fin (of_int k)
   \<and> \<not> notna (to_numeric_coerce L (PFloat NaN))
   \<and> (to_numeric_str L s = NaN \<longrightarrow> \<not> notna (to_numeric_coerce L (PStr s)))
   \<and> (\<forall>xs ys. residual_panel L df = Some (xs, ys) \<longrightarrow>
         length xs = length ys \<and> xs \<noteq> [] \<and> (\<forall>y\<in>set ys. y \<noteq> NaN))
   \<and> (\<forall>p w'. generate_summary_plots L results_dir w = (Inr (Some p), w') \<longrightarrow>
         (\<exists>c table png.
            fs w (summary_path results_dir) = Some (File c) \<and> read_summary L c = Inr table
            \<and> render L (SummaryFig (value_counts (map Status table)) (runtime_panel table)
                          (residual_panel L table) (performance_data table)) = Inr png
            \<and> fs w' p = Some (File png)))"
proof -
  have conv: "to_numeric_coerce L (PStr s) = to_numeric_str L s"
    "to_numeric_coerce L (PFloat f) = f"
    "to_numeric_coerce L (PInt k) = Fin (of_int k)"
    by (simp_all add: to_numeric_coerce_def)
  have na: "\<not> notna (to_numeric_coerce L (PFloat NaN))"
    "to_numeric_str L s = NaN \<longrightarrow> \<not> notna (to_numeric_coerce L (PStr s))"
    by (simp_all add: to_numeric_coerce_def notna_def)
  have series: "\<forall>xs ys. residual_panel L df = Some (xs, ys) \<longrightarrow>
         length xs = length ys \<and> xs \<noteq> [] \<and> (\<forall>y\<in>set ys. y \<noteq> NaN)"
    by (auto simp: residual_panel_eq notna_def split: if_splits)
  have fig: "\<forall>p w'. generate_summary_plots L results_dir w = (Inr (Some p), w') \<longrightarrow>
         (\<exists>c table png.
            fs w (summary_path results_dir) = Some (File c) \<and> read_summary L c = Inr table
            \<and> render L (SummaryFig (value_counts (map Status table)) (runtime_panel table)
                          (residual_panel L table) (performance_data table)) = Inr png
            \<and> fs w' p = Some (File png))"
    using summary_plot_saved [of L results_dir w]
    by (simp add: summary_figure_def)
  from residual_panel_eq [of L df] conv na series fig show ?thesis by blast
qed

text \<open>The sample table, whose second row has the NaN of an \<^verbatim>\<open>N/A\<close> field and whose fourth
  row has failed; a table of these two rows; and a run on the sample results directory.\<close>

theorem residual_panel_rows_witness:
  "residual_panel sample_lib sample_rows = Some ([100, 1000], [Fin 0.0005, Fin 0.01])
   \<and> residual_panel sample_lib [sample_rows ! 1, sample_rows ! 3] = None
   \<and> to_numeric_str sample_lib ''abc'' = NaN
   \<and> \<not> notna (to_numeric_coerce sample_lib (PStr ''abc''))
   \<and> fst (generate_summary_plots sample_lib ''results'' results_world)
       = Inr (Some ''results/parametric_study_summary.png'')
   \<and> fs (snd (generate_summary_plots sample_lib ''results'' results_world))
        ''results/parametric_study_summary.png'' = Some (File ''PNG'')"
proof -
  let ?run = "generate_summary_plots sample_lib ''results'' results_world"
  note a = residual_panel_rows [of sample_lib sample_rows "''abc''" NaN 0 "''results''"
      results_world]
  note b = residual_panel_rows [of sample_lib "[sample_rows ! 1, sample_rows ! 3]" "''abc''"
      NaN 0 "''results''" results_world]
  have conv: "to_numeric_coerce sample_lib (PStr ''0.0005'') = Fin 0.0005"
    "to_numeric_coerce sample_lib (PStr ''0.01'') = Fin 0.01"
    "to_numeric_coerce sample_lib (PStr ''abc'') = NaN"
    "to_numeric_coerce sample_lib (PFloat NaN) = NaN"
    "to_numeric_str sample_lib ''abc'' = NaN"
    by (simp_all add: to_numeric_coerce_def sample_lib_def)
  from a have "residual_panel sample_lib sample_rows =
     (if filter (\<lambda>r. Status r = ''SUCCESS''
                     \<and> notna (to_numeric_coerce sample_lib (FinalResidual r))) sample_rows = []
      then None
      else Some
        (map Reynolds (filter (\<lambda>r. Status r = ''SUCCESS''
                     \<and> notna (to_numeric_coerce sample_lib (FinalResidual r))) sample_rows),
         map (\<lambda>r. to_numeric_coerce sample_lib (FinalResidual r))
           (filter (\<lambda>r. Status r = ''SUCCESS''
                     \<and> notna (to_numeric_coerce sample_lib (FinalResidual r))) sample_rows)))"
    by blast
  then have p1: "residual_panel sample_lib sample_rows
      = Some ([100, 1000], [Fin 0.0005, Fin 0.01])"
    by (simp add: sample_rows_def conv notna_def)
  from b have "residual_panel sample_lib [sample_rows ! 1, sample_rows ! 3] =
     (if filter (\<lambda>r. Status r = ''SUCCESS''
                     \<and> notna (to_numeric_coerce sample_lib (FinalResidual r)))
           [sample_rows ! 1, sample_rows ! 3] = []
      then None
      else Some
        (map Reynolds (filter (\<lambda>r. Status r = ''SUCCESS''
                     \<and> notna (to_numeric_coerce sample_lib (FinalResidual r)))
           [sample_rows ! 1, sample_rows ! 3]),
         map (\<lambda>r. to_numeric_coerce sample_lib (FinalResidual r))
           (filter (\<lambda>r. Status r = ''SUCCESS''
                     \<and> notna (to_numeric_coerce sample_lib (FinalResidual r)))
              [sample_rows ! 1, sample_rows ! 3])))"
    by blast
  then have p2: "residual_panel sample_lib [sample_rows ! 1, sample_rows ! 3] = None"
    by (simp add: sample_rows_def conv notna_def)
  from a conv(5) have abc: "\<not> notna (to_numeric_coerce sample_lib (PStr ''abc''))"
    by blast
  have name: "path_join ''results'' ''parametric_study_summary.png''
      = ''results/parametric_study_summary.png''"
    by (simp add: path_join_def)
  have src: "read_file results_world (summary_path ''results'') = Inr ''table''"
    "read_summary sample_lib ''table'' = Inr sample_rows"
    "render sample_lib = (\<lambda>fig. Inr ''PNG'')"
    by (simp_all add: read_file_def results_world_def sample_paths sample_lib_def)
  have run: "fst ?run = Inr (Some ''results/parametric_study_summary.png'')"
    by (simp add: generate_summary_plots_def path_exists_def results_world_def sample_paths
        src [unfolded results_world_def sample_paths] savefig_def write_file_def name Let_def)
  then have eq: "?run = (Inr (Some ''results/parametric_study_summary.png''), snd ?run)"
    by (simp add: prod_eq_iff)
  from a have "\<forall>p w'. ?run = (Inr (Some p), w') \<longrightarrow>
         (\<exists>c table png.
            fs results_world (summary_path ''results'') = Some (File c)
            \<and> read_summary sample_lib c = Inr table
            \<and> render sample_lib (SummaryFig (value_counts (map Status table))
                  (runtime_panel table) (residual_panel sample_lib table)
                  (performance_data table)) = Inr png
            \<and> fs w' p = Some (File png))"
    by blast
  with eq obtain table png where
    "render sample_lib (SummaryFig (value_counts (map Status table))
        (runtime_panel table) (residual_panel sample_lib table)
        (performance_data table)) = Inr png"
    "fs (snd ?run) ''results/parametric_study_summary.png'' = Some (File png)"
    by blast
  then have saved: "fs (snd ?run) ''results/parametric_study_summary.png''
      = Some (File ''PNG'')"
    by (simp add: src(3))
  from p1 p2 conv(5) abc run saved show ?thesis by blast
qed

lemma success_rate_total: "\<exists>rate. success_rate df = Inr rate"
proof (cases "df = []")
  case True
  then show ?thesis
    by (simp add: success_rate_def total_cases_def)
next
  case False
  then have "py_truediv (int (length (filter (\<lambda>r. Status r = ''SUCCESS'') df)))
      (int (length df))
    = Inr (real (length (filter (\<lambda>r. Status r = ''SUCCESS'') df)) / real (length df))"
    by (rule ratio_in_range [OF _ length_filter_le])
  with False show ?thesis
    by (simp add: success_rate_def total_cases_def successful_cases_def with_status_def)
qed

lemma table_loop:
  "foldl (\<lambda>h r. h @ row_html L r) h0 df = h0 @ concat (map (row_html L) df)"
  by (induction df arbitrary: h0) simp_all

lemma report_path_facts:
  "summary_path d \<noteq> path_join d report_name"
  "d \<noteq> path_join d report_name"
  by (simp_all add: summary_path_def path_join_def report_name_def)

lemma missing_summary_plots:
  "\<not> path_exists w (summary_path d) \<Longrightarrow>
     generate_summary_plots L d w
       = (Inr None, print (''Warning: Summary file not found: '' @ summary_path d) w)"
  by (simp add: generate_summary_plots_def)

lemma missing_summary_report:
  "\<not> path_exists w (summary_path d) \<Longrightarrow>
     generate_html_report L now d w
       = (Inr None, print (''Error: Summary file not found: '' @ summary_path d) w)"
  by (simp add: generate_html_report_def)

text \<open>
  C1, as the code has it. Without a summary file \<open>generate_html_report\<close> prints an error
  line and returns nothing, and the whole run leaves the file system as it was. The run is
  not ended by that: with an existing results directory \<open>main\<close> goes on to its last line
  and the process ends with status 0; the status is 1 only when the results directory
  itself does not exist.
\<close>

theorem missing_summary_not_fatal:
  "\<not> path_exists w (summary_path d) \<Longrightarrow>
     generate_html_report L now d w
       = (Inr None, print (''Error: Summary file not found: '' @ summary_path d) w)
     \<and> fs (snd (main_report L now [prog, d] w)) = fs w
     \<and> (path_exists w d \<longrightarrow> fst (main_report L now [prog, d] w) = Exit 0)
     \<and> (\<not> path_exists w d \<longrightarrow> fst (main_report L now [prog, d] w) = Exit 1)"
  by (simp add: main_report_def missing_summary_plots missing_summary_report Let_def)

theorem missing_summary_not_fatal_witness:
  "\<not> path_exists empty_results_world (summary_path ''results'')
   \<and> fs (snd (main_report sample_lib ''2025-01-01 12:00:00'' [''generate-report.py'', ''results'']
        empty_results_world)) = fs empty_results_world
   \<and> fst (main_report sample_lib ''2025-01-01 12:00:00'' [''generate-report.py'', ''results'']
        empty_results_world) = Exit 0"
  using missing_summary_not_fatal [of empty_results_world "''results''" sample_lib
      "''2025-01-01 12:00:00''" "''generate-report.py''"]
  by (simp add: empty_results_world_def path_exists_def sample_paths)

text \<open>
  C1, as the specification states it, fails: in a results directory without a summary
  file the report generator ends with exit status 0.
\<close>

theorem missing_summary_exit_counterexample:
  "\<not> path_exists empty_results_world (summary_path ''results'')
   \<and> exit_status (fst (main_report sample_lib ''2025-01-01 12:00:00''
        [''generate-report.py'', ''results''] empty_results_world)) = 0"
  by (simp add: main_report_def missing_summary_plots missing_summary_report Let_def
      empty_results_world_def path_exists_def sample_paths)

lemma html_content_shape:
  "\<exists>head_rest. \<forall>t. html_content L t df
      = Inr (html_head_1 @ t @ head_rest @ concat (map (row_html L) df) @ html_tail)"
proof -
  obtain rate where r: "success_rate df = Inr rate"
    using success_rate_total by blast
  show ?thesis
    by (rule exI [of _ "html_head_2 @ str_int (total_cases df) @ html_head_3
          @ fmt_1f L (Fin rate) @ html_head_4 @ str_int (successful_cases df) @ html_head_5
          @ fmt_1f L (avg_runtime df) @ html_head_6"])
       (simp add: html_content_def r table_loop html_head_def)
qed

lemma write_file_cases:
  "write_file d name c w =
     (if fs w d = Some Dir \<and> fs w (path_join d name) \<noteq> Some Dir
      then Inr (w\<lparr>fs := (fs w)(path_join d name \<mapsto> File c)\<rparr>)
      else Inl (case fs w d of None \<Rightarrow> FileNotFoundError
                | Some (File _) \<Rightarrow> NotADirectoryError
                | Some Dir \<Rightarrow> IsADirectoryError))"
  by (auto simp: write_file_def split: option.splits node.splits)

text \<open>
  C9. Two runs of \<open>generate_html_report\<close>, the second on the world the first has left,
  return the same result and leave every other file as it was. When a report is written,
  both documents are the same bytes around the timestamp: the same text before it, the same
  headline metrics after it, the same table rows (one block per row of the summary table, in
  its order) and the same closing text. When none is written, the file system stays as it
  was.
\<close>

theorem report_generation_idempotent:
  assumes "generate_html_report L t1 d w = (r1, w1)"
    and "generate_html_report L t2 d w1 = (r2, w2)"
  shows "r2 = r1
    \<and> (\<forall>p. p \<noteq> path_join d report_name \<longrightarrow> fs w1 p = fs w p \<and> fs w2 p = fs w p)
    \<and> (r1 = Inr (Some (path_join d report_name)) \<longrightarrow>
         (\<exists>c df head_rest.
            fs w (summary_path d) = Some (File c) \<and> read_summary L c = Inr df
            \<and> fs w1 (path_join d report_name)
                = Some (File (html_head_1 @ t1 @ head_rest
                              @ concat (map (row_html L) df) @ html_tail))
            \<and> fs w2 (path_join d report_name)
                = Some (File (html_head_1 @ t2 @ head_rest
                              @ concat (map (row_html L) df) @ html_tail))))
    \<and> (r1 \<noteq> Inr (Some (path_join d report_name)) \<longrightarrow> fs w1 = fs w \<and> fs w2 = fs w)"
proof (cases "fs w (summary_path d)")
  case None
  with assms(1) have 1: "r1 = Inr None" "fs w1 = fs w"
    by (auto simp: generate_html_report_def path_exists_def)
  with None assms(2) have 2: "r2 = Inr None" "fs w2 = fs w"
    by (auto simp: generate_html_report_def path_exists_def)
  from 1 2 show ?thesis by simp
next
  case (Some nd)
  show ?thesis
  proof (cases nd)
    case Dir
    with Some assms(1) have 1: "r1 = Inl IsADirectoryError" "w1 = w"
      by (auto simp: generate_html_report_def path_exists_def read_file_def)
    with Some Dir assms(2) have 2: "r2 = Inl IsADirectoryError" "w2 = w"
      by (auto simp: generate_html_report_def path_exists_def read_file_def)
    from 1 2 show ?thesis by simp
  next
    case (File c)
    show ?thesis
    proof (cases "read_summary L c")
      case (Inl e)
      with Some File assms(1) have 1: "r1 = Inl e" "w1 = w"
        by (auto simp: generate_html_report_def path_exists_def read_file_def)
      with Some File Inl assms(2) have 2: "r2 = Inl e" "w2 = w"
        by (auto simp: generate_html_report_def path_exists_def read_file_def)
      from 1 2 show ?thesis by simp
    next
      case (Inr df)
      obtain head_rest where h: "\<And>t. html_content L t df
          = Inr (html_head_1 @ t @ head_rest @ concat (map (row_html L) df) @ html_tail)"
        using html_content_shape [of L df] by blast
      let ?p = "path_join d report_name"
      let ?doc = "\<lambda>t. html_head_1 @ t @ head_rest @ concat (map (row_html L) df) @ html_tail"
      show ?thesis
      proof (cases "fs w d = Some Dir \<and> fs w ?p \<noteq> Some Dir")
        case False
        then obtain e where e: "\<And>c. write_file d report_name c w = Inl e"
          by (simp add: write_file_cases)
        with Some File Inr assms(1) have 1: "r1 = Inl e" "w1 = w"
          by (auto simp: generate_html_report_def path_exists_def read_file_def h)
        with Some File Inr e assms(2) have 2: "r2 = Inl e" "w2 = w"
          by (auto simp: generate_html_report_def path_exists_def read_file_def h)
        from 1 2 show ?thesis by simp
      next
        case True
        with Some File Inr assms(1) have 1: "r1 = Inr (Some ?p)"
          "fs w1 = (fs w)(?p \<mapsto> File (?doc t1))"
          by (auto simp: generate_html_report_def path_exists_def read_file_def h
              write_file_cases)
        have s1: "fs w1 (summary_path d) = Some (File c)" "fs w1 d = Some Dir"
          "fs w1 ?p \<noteq> Some Dir"
          using 1(2) Some File True by (simp_all add: report_path_facts)
        with Inr assms(2) have 2: "r2 = Inr (Some ?p)"
          "fs w2 = (fs w1)(?p \<mapsto> File (?doc t2))"
          by (auto simp: generate_html_report_def path_exists_def read_file_def h
              write_file_cases)
        from 1 2 Some File Inr show ?thesis by auto
      qed
    qed
  qed
qed


theorem report_generation_idempotent_witness:
  "fst (generate_html_report sample_lib ''2025-01-01 12:00:00'' ''results'' results_world)
     = Inr (Some ''results/parametric_study_report.html'')
   \<and> fst (generate_html_report sample_lib ''2025-01-02 08:30:00'' ''results''
           (snd (generate_html_report sample_lib ''2025-01-01 12:00:00'' ''results''
                  results_world)))
     = Inr (Some ''results/parametric_study_report.html'')
   \<and> (\<exists>head_rest.
         fs (snd (generate_html_report sample_lib ''2025-01-01 12:00:00'' ''results''
                   results_world)) ''results/parametric_study_report.html''
           = Some (File (html_head_1 @ ''2025-01-01 12:00:00'' @ head_rest
                         @ concat (map (row_html sample_lib) sample_rows) @ html_tail))
         \<and> fs (snd (generate_html_report sample_lib ''2025-01-02 08:30:00'' ''results''
                 (snd (generate_html_report sample_lib ''2025-01-01 12:00:00'' ''results''
                        results_world)))) ''results/parametric_study_report.html''
           = Some (File (html_head_1 @ ''2025-01-02 08:30:00'' @ head_rest
                         @ concat (map (row_html sample_lib) sample_rows) @ html_tail)))"
proof -
  let ?t1 = "''2025-01-01 12:00:00''" and ?t2 = "''2025-01-02 08:30:00''"
  let ?run1 = "generate_html_report sample_lib ?t1 ''results'' results_world"
  let ?run2 = "generate_html_report sample_lib ?t2 ''results'' (snd ?run1)"
  have p: "path_join ''results'' report_name = ''results/parametric_study_report.html''"
    by (simp add: path_join_def report_name_def)
  obtain head_rest where h: "\<And>t. html_content sample_lib t sample_rows
      = Inr (html_head_1 @ t @ head_rest
             @ concat (map (row_html sample_lib) sample_rows) @ html_tail)"
    using html_content_shape [of sample_lib sample_rows] by blast
  have src: "fs results_world (summary_path ''results'') = Some (File ''table'')"
    "read_summary sample_lib ''table'' = Inr sample_rows"
    by (simp_all add: results_world_def sample_paths sample_lib_def)
  have e1: "fst ?run1 = Inr (Some ''results/parametric_study_report.html'')"
    by (simp add: generate_html_report_def path_exists_def results_world_def sample_paths
        read_file_def src(2) h write_file_def p)
  have a1: "?run1 = (fst ?run1, snd ?run1)" and a2: "?run2 = (fst ?run2, snd ?run2)"
    by simp_all
  note th = report_generation_idempotent [OF a1 a2]
  from th have e2: "fst ?run2 = fst ?run1"
    by blast
  from th e1 obtain c df rest where
    f: "fs results_world (summary_path ''results'') = Some (File c)"
      "read_summary sample_lib c = Inr df"
      "fs (snd ?run1) (path_join ''results'' report_name)
         = Some (File (html_head_1 @ ?t1 @ rest
                       @ concat (map (row_html sample_lib) df) @ html_tail))"
      "fs (snd ?run2) (path_join ''results'' report_name)
         = Some (File (html_head_1 @ ?t2 @ rest
                       @ concat (map (row_html sample_lib) df) @ html_tail))"
    unfolding p by blast
  from f(1) src(1) have "c = ''table''"
    by simp
  with f(2) src(2) have "df = sample_rows"
    by simp
  with f(3,4) e1 e2 show ?thesis
    unfolding p by (intro conjI exI [of _ rest]) (simp_all only:)
qed

end
